theory Spec2Isabelle
  imports Main
begin

section \<open>The Tavily search server: values, exceptions and the backend\<close>

text \<open>
  The server of \<^verbatim>\<open>src/mcp_servers/tavily_server/main.py\<close> receives a tool name and a
  dictionary of JSON arguments, calls the Tavily client once and renders what comes back as
  one text. Arguments and backend responses are dynamically typed, so the model has one
  type of Python values, and every operation the handlers apply to such a value is a
  function that either returns or raises.

  A Python \<^verbatim>\<open>str\<close> is a \<^typ>\<open>string\<close>, one \<^typ>\<open>char\<close> per code point (code
  points below 256). A \<^verbatim>\<open>float\<close> is carried as the text \<^verbatim>\<open>str()\<close> gives for it:
  the handlers only print floats and test them for truth. A \<^verbatim>\<open>dict\<close> has string keys
  and is an association list with pairwise distinct keys, read with \<^const>\<open>map_of\<close>.
  The messages of the exceptions the interpreter raises are those of CPython 3.11.
\<close>

datatype pyval =
    PNone
  | PBool bool
  | PInt int
  | PFloat string
  | PStr string
  | PList "pyval list"
  | PDict "(string \<times> pyval) list"

text \<open>
  The exceptions that can arise, all of them subclasses of \<^verbatim>\<open>Exception\<close>.
  \<open>BackendError\<close> stands for whatever the Tavily client raises, with its message.
\<close>

datatype pyexc =
    KeyError pyval
  | TypeError string
  | AttributeError string
  | ValueError string
  | BackendError string

text \<open>\<^verbatim>\<open>TextContent(type=..., text=...)\<close> of \<^verbatim>\<open>mcp.types\<close>.\<close>

datatype text_content = TextContent (tc_type: string) (tc_text: string)

text \<open>
  The four methods of \<^verbatim>\<open>tavily_client\<close> the handlers call, with the arguments passed.
  For \<open>Search\<close> the two domain filters are keyword arguments that may be left out.
\<close>

datatype backend_call =
    Search pyval pyval "pyval option" "pyval option"
  | QnaSearch pyval
  | GetSearchContext pyval pyval
  | Extract pyval pyval

type_synonym backend = "backend_call \<Rightarrow> pyexc + pyval"

text \<open>
  A handler returns the backend calls it made, in order, and either the exception that left
  it or its list of text contents.
\<close>

type_synonym outcome = "backend_call list \<times> (pyexc + text_content list)"

abbreviation nl :: string where
  "nl \<equiv> [CHR 0x0A]"

abbreviation dquote :: string where
  "dquote \<equiv> [CHR 0x22]"

abbreviation squote :: string where
  "squote \<equiv> [CHR 0x27]"

subsection \<open>Printing values\<close>

definition digit_char :: "nat \<Rightarrow> char" where
  "digit_char d = char_of (48 + d)"

fun nat_str :: "nat \<Rightarrow> string" where
  "nat_str n = (if n < 10 then [digit_char n] else nat_str (n div 10) @ [digit_char (n mod 10)])"

declare nat_str.simps [simp del]

definition int_str :: "int \<Rightarrow> string" where
  "int_str i = (if i < 0 then CHR ''-'' # nat_str (nat (- i)) else nat_str (nat i))"

definition hex_char :: "nat \<Rightarrow> char" where
  "hex_char d = (if d < 10 then char_of (48 + d) else char_of (87 + d))"

text \<open>\<^verbatim>\<open>repr()\<close> of a string: the quote is \<^verbatim>\<open>"\<close> when the string has a \<^verbatim>\<open>'\<close> and no
  \<^verbatim>\<open>"\<close>, else \<^verbatim>\<open>'\<close>; backslash, the quote, and unprintable characters are escaped.\<close>

definition py_printable :: "char \<Rightarrow> bool" where
  "py_printable c = (let n = (of_char c :: nat) in
     (32 \<le> n \<and> n < 127) \<or> (161 \<le> n \<and> n \<noteq> 173))"

definition repr_char :: "char \<Rightarrow> char \<Rightarrow> string" where
  "repr_char q c =
     (if c = q \<or> c = CHR 0x5C then [CHR 0x5C, c]
      else if c = CHR 0x09 then [CHR 0x5C, CHR ''t'']
      else if c = CHR 0x0A then [CHR 0x5C, CHR ''n'']
      else if c = CHR 0x0D then [CHR 0x5C, CHR ''r'']
      else if py_printable c then [c]
      else [CHR 0x5C, CHR ''x'', hex_char ((of_char c :: nat) div 16),
            hex_char ((of_char c :: nat) mod 16)])"

definition str_repr :: "string \<Rightarrow> string" where
  "str_repr s =
     (let q = (if CHR 0x27 \<in> set s \<and> CHR 0x22 \<notin> set s then CHR 0x22 else CHR 0x27)
      in q # concat (map (repr_char q) s) @ [q])"

fun py_repr :: "pyval \<Rightarrow> string"
  and py_repr_elems :: "pyval list \<Rightarrow> string"
  and py_repr_items :: "(string \<times> pyval) list \<Rightarrow> string" where
  "py_repr PNone = ''None''"
| "py_repr (PBool b) = (if b then ''True'' else ''False'')"
| "py_repr (PInt i) = int_str i"
| "py_repr (PFloat r) = r"
| "py_repr (PStr s) = str_repr s"
| "py_repr (PList xs) = ''['' @ py_repr_elems xs @ '']''"
| "py_repr (PDict kvs) = ''{'' @ py_repr_items kvs @ ''}''"
| "py_repr_elems [] = []"
| "py_repr_elems [x] = py_repr x"
| "py_repr_elems (x # y # ys) = py_repr x @ '', '' @ py_repr_elems (y # ys)"
| "py_repr_items [] = []"
| "py_repr_items [(k, v)] = str_repr k @ '': '' @ py_repr v"
| "py_repr_items ((k, v) # kv # kvs) =
     str_repr k @ '': '' @ py_repr v @ '', '' @ py_repr_items (kv # kvs)"

text \<open>What an f-string puts for \<^verbatim>\<open>{x}\<close>: \<^verbatim>\<open>str(x)\<close>.\<close>

definition py_str :: "pyval \<Rightarrow> string" where
  "py_str v = (case v of PStr s \<Rightarrow> s | _ \<Rightarrow> py_repr v)"

text \<open>\<^verbatim>\<open>str(e)\<close> of an exception; for a \<^verbatim>\<open>KeyError\<close> it is the \<^verbatim>\<open>repr\<close> of the key.\<close>

fun str_exc :: "pyexc \<Rightarrow> string" where
  "str_exc (KeyError k) = py_repr k"
| "str_exc (TypeError m) = m"
| "str_exc (AttributeError m) = m"
| "str_exc (ValueError m) = m"
| "str_exc (BackendError m) = m"

subsection \<open>The operations the handlers apply to values\<close>

fun type_name :: "pyval \<Rightarrow> string" where
  "type_name PNone = ''NoneType''"
| "type_name (PBool _) = ''bool''"
| "type_name (PInt _) = ''int''"
| "type_name (PFloat _) = ''float''"
| "type_name (PStr _) = ''str''"
| "type_name (PList _) = ''list''"
| "type_name (PDict _) = ''dict''"

text \<open>Truth value, as in \<^verbatim>\<open>if include_domains:\<close>.\<close>

fun py_truthy :: "pyval \<Rightarrow> bool" where
  "py_truthy PNone = False"
| "py_truthy (PBool b) = b"
| "py_truthy (PInt i) = (i \<noteq> 0)"
| "py_truthy (PFloat r) = (r \<noteq> ''0.0'' \<and> r \<noteq> ''-0.0'')"
| "py_truthy (PStr s) = (s \<noteq> [])"
| "py_truthy (PList xs) = (xs \<noteq> [])"
| "py_truthy (PDict kvs) = (kvs \<noteq> [])"

text \<open>\<^verbatim>\<open>arguments.get(key, default)\<close> on the argument dictionary.\<close>

definition args_get :: "(string \<rightharpoonup> pyval) \<Rightarrow> string \<Rightarrow> pyval \<Rightarrow> pyval" where
  "args_get arguments k d = (case arguments k of None \<Rightarrow> d | Some v \<Rightarrow> v)"

text \<open>\<^verbatim>\<open>x.get(key, default)\<close>: only a dict has the method.\<close>

definition py_get :: "pyval \<Rightarrow> string \<Rightarrow> pyval \<Rightarrow> pyexc + pyval" where
  "py_get x k d =
     (case x of
        PDict kvs \<Rightarrow> Inr (case map_of kvs k of None \<Rightarrow> d | Some v \<Rightarrow> v)
      | _ \<Rightarrow> Inl (AttributeError
                 (squote @ type_name x @ squote @ '' object has no attribute '' @ squote @ ''get'' @ squote)))"

fun is_substring :: "string \<Rightarrow> string \<Rightarrow> bool" where
  "is_substring p [] = (p = [])"
| "is_substring p (c # cs) = (take (length p) (c # cs) = p \<or> is_substring p cs)"

text \<open>\<^verbatim>\<open>key in x\<close> for a string key: a key of a dict, an element of a list, a
  substring of a string; anything else is not a container.\<close>

definition py_contains :: "string \<Rightarrow> pyval \<Rightarrow> pyexc + bool" where
  "py_contains k x =
     (case x of
        PDict kvs \<Rightarrow> Inr (k \<in> set (map fst kvs))
      | PList xs \<Rightarrow> Inr (PStr k \<in> set xs)
      | PStr s \<Rightarrow> Inr (is_substring k s)
      | _ \<Rightarrow> Inl (TypeError (''argument of type '' @ squote @ type_name x @ squote @ '' is not iterable'')))"

text \<open>\<^verbatim>\<open>x[key]\<close> for a string key.\<close>

definition py_getitem :: "pyval \<Rightarrow> string \<Rightarrow> pyexc + pyval" where
  "py_getitem x k =
     (case x of
        PDict kvs \<Rightarrow> (case map_of kvs k of None \<Rightarrow> Inl (KeyError (PStr k)) | Some v \<Rightarrow> Inr v)
      | PList xs \<Rightarrow> Inl (TypeError ''list indices must be integers or slices, not str'')
      | PStr s \<Rightarrow> Inl (TypeError (''string indices must be integers, not '' @ squote @ ''str'' @ squote))
      | _ \<Rightarrow> Inl (TypeError (squote @ type_name x @ squote @ '' object is not subscriptable'')))"

text \<open>The stop index of \<^verbatim>\<open>x[:n]\<close>: \<^verbatim>\<open>None\<close> is the whole sequence, a negative
  index counts from the end, a bool is 0 or 1; other values are refused.\<close>

definition slice_stop :: "nat \<Rightarrow> pyval \<Rightarrow> pyexc + nat" where
  "slice_stop len n =
     (case n of
        PNone \<Rightarrow> Inr len
      | PInt i \<Rightarrow> Inr (if i < 0 then nat (int len + i) else nat i)
      | PBool b \<Rightarrow> Inr (if b then 1 else 0)
      | _ \<Rightarrow> Inl (TypeError ''slice indices must be integers or None or have an __index__ method''))"

definition py_slice_to :: "pyval \<Rightarrow> pyval \<Rightarrow> pyexc + pyval" where
  "py_slice_to x n =
     (case x of
        PList xs \<Rightarrow> (case slice_stop (length xs) n of Inl e \<Rightarrow> Inl e | Inr k \<Rightarrow> Inr (PList (take k xs)))
      | PStr s \<Rightarrow> (case slice_stop (length s) n of Inl e \<Rightarrow> Inl e | Inr k \<Rightarrow> Inr (PStr (take k s)))
      | PDict kvs \<Rightarrow> Inl (TypeError (''unhashable type: '' @ squote @ ''slice'' @ squote))
      | _ \<Rightarrow> Inl (TypeError (squote @ type_name x @ squote @ '' object is not subscriptable'')))"

text \<open>The elements a \<^verbatim>\<open>for\<close> loop (or \<^verbatim>\<open>enumerate\<close>) runs over.\<close>

definition py_iter :: "pyval \<Rightarrow> pyexc + pyval list" where
  "py_iter x =
     (case x of
        PList xs \<Rightarrow> Inr xs
      | PStr s \<Rightarrow> Inr (map (\<lambda>c. PStr [c]) s)
      | PDict kvs \<Rightarrow> Inr (map PStr (remdups (map fst kvs)))
      | _ \<Rightarrow> Inl (TypeError (squote @ type_name x @ squote @ '' object is not iterable'')))"

definition py_len :: "pyval \<Rightarrow> pyexc + nat" where
  "py_len x =
     (case x of
        PList xs \<Rightarrow> Inr (length xs)
      | PStr s \<Rightarrow> Inr (length s)
      | PDict kvs \<Rightarrow> Inr (length (remdups (map fst kvs)))
      | _ \<Rightarrow> Inl (TypeError (''object of type '' @ squote @ type_name x @ squote @ '' has no len()'')))"

text \<open>\<^verbatim>\<open>s.split()\<close>: the maximal runs of characters that are not whitespace.
  \<open>cur\<close> is the word being read, reversed.\<close>

definition py_isspace :: "char \<Rightarrow> bool" where
  "py_isspace c = ((of_char c :: nat) \<in> {9, 10, 11, 12, 13, 28, 29, 30, 31, 32, 133, 160})"

fun split_from :: "string \<Rightarrow> string \<Rightarrow> string list" where
  "split_from cur [] = (if cur = [] then [] else [rev cur])"
| "split_from cur (c # cs) =
     (if py_isspace c then (if cur = [] then split_from [] cs else rev cur # split_from [] cs)
      else split_from (c # cur) cs)"

definition py_split :: "pyval \<Rightarrow> pyexc + string list" where
  "py_split x =
     (case x of
        PStr s \<Rightarrow> Inr (split_from [] s)
      | _ \<Rightarrow> Inl (AttributeError
                 (squote @ type_name x @ squote @ '' object has no attribute '' @ squote @ ''split'' @ squote)))"

text \<open>\<^verbatim>\<open>content_preview += "..."\<close>: a string is extended by the three dots, a list by the
  three one-character strings.\<close>

definition py_iadd_dots :: "pyval \<Rightarrow> pyexc + pyval" where
  "py_iadd_dots x =
     (case x of
        PStr s \<Rightarrow> Inr (PStr (s @ ''...''))
      | PList xs \<Rightarrow> Inr (PList (xs @ [PStr ''.'', PStr ''.'', PStr ''.'']))
      | _ \<Rightarrow> Inl (TypeError (''unsupported operand type(s) for +=: '' @ squote @ type_name x @ squote
                 @ '' and '' @ squote @ ''str'' @ squote)))"

text \<open>\<^verbatim>\<open>sep.join(lines)\<close>.\<close>

fun join_str :: "string \<Rightarrow> string list \<Rightarrow> string" where
  "join_str sep [] = []"
| "join_str sep [x] = x"
| "join_str sep (x # y # ys) = x @ sep @ join_str sep (y # ys)"

text \<open>Sequencing: the second computation runs only when the first did not raise.\<close>

definition then_do :: "pyexc + 'a \<Rightarrow> ('a \<Rightarrow> pyexc + 'b) \<Rightarrow> pyexc + 'b" where
  "then_do m f = (case m of Inl e \<Rightarrow> Inl e | Inr x \<Rightarrow> f x)"

section \<open>The handlers\<close>

subsection \<open>\<^verbatim>\<open>handle_search\<close>\<close>

text \<open>One pass of the loop body: the block of result number \<open>i\<close>.\<close>

definition search_block :: "nat \<Rightarrow> pyval \<Rightarrow> pyexc + string" where
  "search_block i result =
     then_do (py_get result ''title'' (PStr ''N/A'')) (\<lambda>title.
     then_do (py_get result ''url'' (PStr ''N/A'')) (\<lambda>url.
     then_do (py_get result ''content'' (PStr ''N/A'')) (\<lambda>content.
     then_do (py_get result ''score'' (PStr ''N/A'')) (\<lambda>score.
       Inr (nl @ ''**Result '' @ nat_str i @ '':**'' @ nl
            @ ''**Title:** '' @ py_str title @ nl
            @ ''**URL:** '' @ py_str url @ nl
            @ ''**Content:** '' @ py_str content @ nl
            @ ''**Score:** '' @ py_str score @ nl
            @ ''---'' @ nl)))))"

text \<open>\<^verbatim>\<open>for i, result in enumerate(..., 1)\<close>, from index \<open>i\<close> on; an exception in a
  pass ends the loop.\<close>

fun search_blocks :: "nat \<Rightarrow> pyval list \<Rightarrow> pyexc + string list" where
  "search_blocks i [] = Inr []"
| "search_blocks i (r # rs) =
     then_do (search_block i r) (\<lambda>b.
     then_do (search_blocks (Suc i) rs) (\<lambda>bs. Inr (b # bs)))"

definition search_results :: "pyval \<Rightarrow> pyval \<Rightarrow> pyexc + string list" where
  "search_results response max_results =
     then_do (py_contains ''results'' response) (\<lambda>has.
       if has then
         then_do (py_getitem response ''results'') (\<lambda>rs.
         then_do (py_slice_to rs max_results) (\<lambda>sl.
         then_do (py_iter sl) (search_blocks 1)))
       else Inr [])"

definition search_text :: "pyval \<Rightarrow> string list \<Rightarrow> string" where
  "search_text query results =
     (if results = [] then ''No search results found.''
      else nl @ ''# Tavily Search Results for: '' @ dquote @ py_str query @ dquote @ nl
           @ nl
           @ ''Found '' @ nat_str (length results) @ '' results:'' @ nl
           @ nl
           @ concat results @ nl
           @ nl
           @ ''**Search completed successfully.**'' @ nl)"

definition handle_search :: "backend \<Rightarrow> (string \<rightharpoonup> pyval) \<Rightarrow> outcome" where
  "handle_search tavily arguments =
     (case arguments ''query'' of
        None \<Rightarrow> ([], Inl (KeyError (PStr ''query'')))
      | Some query \<Rightarrow>
          (let max_results = args_get arguments ''max_results'' (PInt 5);
               include_domains = args_get arguments ''include_domains'' PNone;
               exclude_domains = args_get arguments ''exclude_domains'' PNone;
               call = Search query max_results
                        (if py_truthy include_domains then Some include_domains else None)
                        (if py_truthy exclude_domains then Some exclude_domains else None)
           in ([call],
               Inr [TextContent ''text''
                 (case then_do (tavily call) (\<lambda>response.
                         then_do (search_results response max_results) (\<lambda>results.
                           Inr (search_text query results)))
                  of Inr t \<Rightarrow> t
                   | Inl e \<Rightarrow> ''Search failed: '' @ str_exc e)])))"

subsection \<open>\<^verbatim>\<open>handle_qna_search\<close>\<close>

definition qna_text :: "pyval \<Rightarrow> pyval \<Rightarrow> string" where
  "qna_text query answer =
     nl @ ''# Tavily Q&A Result for: '' @ dquote @ py_str query @ dquote @ nl
     @ nl
     @ ''**Answer:** '' @ py_str answer @ nl
     @ nl
     @ ''**Note:** This answer is generated from web sources and optimized for factual accuracy.''
     @ nl"

definition handle_qna_search :: "backend \<Rightarrow> (string \<rightharpoonup> pyval) \<Rightarrow> outcome" where
  "handle_qna_search tavily arguments =
     (case arguments ''query'' of
        None \<Rightarrow> ([], Inl (KeyError (PStr ''query'')))
      | Some query \<Rightarrow>
          ([QnaSearch query],
           Inr [TextContent ''text''
             (case tavily (QnaSearch query) of
                Inr answer \<Rightarrow> qna_text query answer
              | Inl e \<Rightarrow> ''Q&A search failed: '' @ str_exc e)]))"

subsection \<open>\<^verbatim>\<open>handle_get_context\<close>\<close>

definition context_text :: "pyval \<Rightarrow> pyval \<Rightarrow> pyval \<Rightarrow> pyexc + string" where
  "context_text query max_tokens context =
     then_do (py_split context) (\<lambda>words.
       Inr (nl @ ''# Tavily Context for: '' @ dquote @ py_str query @ dquote @ nl
            @ nl
            @ ''## Generated Context:'' @ nl
            @ nl
            @ py_str context @ nl
            @ nl
            @ ''---'' @ nl
            @ ''**Context Length:** ~'' @ nat_str (length words) @ '' words'' @ nl
            @ ''**Max Tokens Requested:** '' @ py_str max_tokens @ nl
            @ nl
            @ ''**Note:** This context is compiled from multiple web sources and formatted for RAG applications.''
            @ nl))"

definition handle_get_context :: "backend \<Rightarrow> (string \<rightharpoonup> pyval) \<Rightarrow> outcome" where
  "handle_get_context tavily arguments =
     (case arguments ''query'' of
        None \<Rightarrow> ([], Inl (KeyError (PStr ''query'')))
      | Some query \<Rightarrow>
          (let max_tokens = args_get arguments ''max_tokens'' (PInt 4000);
               call = GetSearchContext query max_tokens
           in ([call],
               Inr [TextContent ''text''
                 (case then_do (tavily call) (context_text query max_tokens)
                  of Inr t \<Rightarrow> t
                   | Inl e \<Rightarrow> ''Context retrieval failed: '' @ str_exc e)])))"

subsection \<open>\<^verbatim>\<open>handle_extract_content\<close>\<close>

text \<open>The line on images: added when \<^verbatim>\<open>include_images and result.get('images')\<close>.\<close>

definition images_line :: "pyval \<Rightarrow> pyval \<Rightarrow> pyexc + string" where
  "images_line include_images result =
     (if py_truthy include_images then
        then_do (py_get result ''images'' PNone) (\<lambda>images.
          if py_truthy images then
            then_do (py_getitem result ''images'') (\<lambda>imgs.
            then_do (py_len imgs) (\<lambda>k.
              Inr (''**Images Found:** '' @ nat_str k @ '' images'' @ nl)))
          else Inr [])
      else Inr [])"

definition extract_block :: "pyval \<Rightarrow> nat \<Rightarrow> pyval \<Rightarrow> pyexc + string" where
  "extract_block include_images i result =
     then_do (py_get result ''raw_content'' (PStr [])) (\<lambda>raw_content.
     then_do (py_slice_to raw_content (PInt 500)) (\<lambda>head.
     then_do (py_len raw_content) (\<lambda>n.
     then_do (if n > 500 then py_iadd_dots head else Inr head) (\<lambda>content_preview.
     then_do (py_get result ''url'' (PStr ''N/A'')) (\<lambda>url.
     then_do (images_line include_images result) (\<lambda>images.
       Inr (nl @ ''**Extract '' @ nat_str i @ '':**'' @ nl
            @ ''**URL:** '' @ py_str url @ nl
            @ ''**Content Preview:** '' @ py_str content_preview @ nl
            @ ''**Full Content Length:** '' @ nat_str n @ '' characters'' @ nl
            @ images
            @ ''---'' @ nl)))))))"

fun extract_blocks :: "pyval \<Rightarrow> nat \<Rightarrow> pyval list \<Rightarrow> pyexc + string list" where
  "extract_blocks include_images i [] = Inr []"
| "extract_blocks include_images i (r # rs) =
     then_do (extract_block include_images i r) (\<lambda>b.
     then_do (extract_blocks include_images (Suc i) rs) (\<lambda>bs. Inr (b # bs)))"

definition extract_results :: "pyval \<Rightarrow> pyval \<Rightarrow> pyexc + string list" where
  "extract_results include_images response =
     then_do (py_contains ''results'' response) (\<lambda>has.
       if has then
         then_do (py_getitem response ''results'') (\<lambda>rs.
         then_do (py_iter rs) (extract_blocks include_images 1))
       else Inr [])"

definition failed_line :: "pyval \<Rightarrow> pyexc + string" where
  "failed_line failed =
     then_do (py_get failed ''url'' (PStr ''Unknown URL'')) (\<lambda>url.
     then_do (py_get failed ''error'' (PStr ''Unknown error'')) (\<lambda>err.
       Inr (''- '' @ py_str url @ '': '' @ py_str err)))"

fun failed_lines :: "pyval list \<Rightarrow> pyexc + string list" where
  "failed_lines [] = Inr []"
| "failed_lines (f # fs) =
     then_do (failed_line f) (\<lambda>l.
     then_do (failed_lines fs) (\<lambda>ls. Inr (l # ls)))"

definition extract_failed :: "pyval \<Rightarrow> pyexc + string list" where
  "extract_failed response =
     then_do (py_contains ''failed_results'' response) (\<lambda>has.
       if has then
         then_do (py_getitem response ''failed_results'') (\<lambda>fr.
           if py_truthy fr then then_do (py_iter fr) failed_lines else Inr [])
       else Inr [])"

definition extract_text :: "string list \<Rightarrow> string list \<Rightarrow> string" where
  "extract_text results failed_results =
     nl @ ''# Tavily Content Extraction Results'' @ nl
     @ nl
     @ ''## Successfully Extracted ('' @ nat_str (length results) @ '' URLs):'' @ nl
     @ nl
     @ (if results \<noteq> [] then concat results else ''No content successfully extracted.'') @ nl
     @ nl
     @ ''## Failed Extractions ('' @ nat_str (length failed_results) @ '' URLs):'' @ nl
     @ nl
     @ (if failed_results \<noteq> [] then join_str nl failed_results else ''No failed extractions.'') @ nl
     @ nl
     @ ''**Extraction completed.**'' @ nl"

text \<open>\<^verbatim>\<open>len(urls)\<close> is taken for the log line before the \<^verbatim>\<open>try\<close>, so its exception
  leaves the handler.\<close>

definition handle_extract_content :: "backend \<Rightarrow> (string \<rightharpoonup> pyval) \<Rightarrow> outcome" where
  "handle_extract_content tavily arguments =
     (case arguments ''urls'' of
        None \<Rightarrow> ([], Inl (KeyError (PStr ''urls'')))
      | Some urls \<Rightarrow>
          (let include_images = args_get arguments ''include_images'' (PBool False)
           in case py_len urls of
                Inl e \<Rightarrow> ([], Inl e)
              | Inr _ \<Rightarrow>
                  (let call = Extract urls include_images
                   in ([call],
                       Inr [TextContent ''text''
                         (case then_do (tavily call) (\<lambda>response.
                                 then_do (extract_results include_images response) (\<lambda>results.
                                 then_do (extract_failed response) (\<lambda>failed_results.
                                   Inr (extract_text results failed_results))))
                          of Inr t \<Rightarrow> t
                           | Inl e \<Rightarrow> ''Content extraction failed: '' @ str_exc e)]))))"

section \<open>The entry point \<^verbatim>\<open>call_tool\<close>\<close>

text \<open>The body of the \<^verbatim>\<open>try\<close>: the branch on the tool name.\<close>

definition route :: "backend \<Rightarrow> string \<Rightarrow> (string \<rightharpoonup> pyval) \<Rightarrow> outcome" where
  "route tavily name arguments =
     (if name = ''tavily_search'' then handle_search tavily arguments
      else if name = ''tavily_qna_search'' then handle_qna_search tavily arguments
      else if name = ''tavily_get_context'' then handle_get_context tavily arguments
      else if name = ''tavily_extract_content'' then handle_extract_content tavily arguments
      else ([], Inl (ValueError (''Unknown tool: '' @ name))))"

text \<open>\<^verbatim>\<open>except Exception as e\<close> around it.\<close>

definition call_tool :: "backend \<Rightarrow> string \<Rightarrow> (string \<rightharpoonup> pyval) \<Rightarrow> outcome" where
  "call_tool tavily name arguments =
     (case route tavily name arguments of
        (calls, Inr contents) \<Rightarrow> (calls, Inr contents)
      | (calls, Inl e) \<Rightarrow> (calls, Inr [TextContent ''text'' (''Error: '' @ str_exc e)]))"

section \<open>Test doubles for the Tavily client\<close>

text \<open>A backend that answers every call with the same response, and one that raises on
  every call.\<close>

definition answering :: "pyval \<Rightarrow> backend" where
  "answering response = (\<lambda>call. Inr response)"

definition failing :: "string \<Rightarrow> backend" where
  "failing message = (\<lambda>call. Inl (BackendError message))"

section \<open>The renderings the specification describes\<close>

text \<open>
  What the specification says a rendered record looks like, for records that are
  dictionaries; the properties below compare the handlers with these.
  \<open>spec_field r k\<close> is the text shown for field \<open>k\<close> of record \<open>r\<close>: its value, or the
  marker \<^verbatim>\<open>N/A\<close> when the record has no such field.
\<close>

definition spec_field :: "(string \<times> pyval) list \<Rightarrow> string \<Rightarrow> string" where
  "spec_field r k = (case map_of r k of None \<Rightarrow> ''N/A'' | Some v \<Rightarrow> py_str v)"

definition spec_result_block :: "nat \<Rightarrow> (string \<times> pyval) list \<Rightarrow> string" where
  "spec_result_block i r =
     nl @ ''**Result '' @ nat_str i @ '':**'' @ nl
     @ ''**Title:** '' @ spec_field r ''title'' @ nl
     @ ''**URL:** '' @ spec_field r ''url'' @ nl
     @ ''**Content:** '' @ spec_field r ''content'' @ nl
     @ ''**Score:** '' @ spec_field r ''score'' @ nl
     @ ''---'' @ nl"

text \<open>
  An extracted record as the extraction API gives it: \<^verbatim>\<open>raw_content\<close>, when there, is
  a string and \<^verbatim>\<open>images\<close>, when there, is a list.
\<close>

definition wf_extracted :: "(string \<times> pyval) list \<Rightarrow> bool" where
  "wf_extracted r =
     ((case map_of r ''raw_content'' of
         None \<Rightarrow> True
       | Some v \<Rightarrow> (case v of PStr _ \<Rightarrow> True | _ \<Rightarrow> False))
      \<and> (case map_of r ''images'' of
           None \<Rightarrow> True
         | Some v \<Rightarrow> (case v of PList _ \<Rightarrow> True | _ \<Rightarrow> False)))"

definition content_of :: "(string \<times> pyval) list \<Rightarrow> string" where
  "content_of r = (case map_of r ''raw_content'' of Some (PStr s) \<Rightarrow> s | _ \<Rightarrow> [])"

definition images_of :: "(string \<times> pyval) list \<Rightarrow> pyval list" where
  "images_of r = (case map_of r ''images'' of Some (PList xs) \<Rightarrow> xs | _ \<Rightarrow> [])"

text \<open>The block of an extracted record: its URL, the first 500 characters of the content
  with the marker \<^verbatim>\<open>...\<close> when there are more, the length of the whole content, and the
  number of images when images were asked for and there are some.\<close>

definition spec_extract_block :: "bool \<Rightarrow> nat \<Rightarrow> (string \<times> pyval) list \<Rightarrow> string" where
  "spec_extract_block with_images i r =
     nl @ ''**Extract '' @ nat_str i @ '':**'' @ nl
     @ ''**URL:** '' @ spec_field r ''url'' @ nl
     @ ''**Content Preview:** '' @ take 500 (content_of r)
       @ (if length (content_of r) > 500 then ''...'' else []) @ nl
     @ ''**Full Content Length:** '' @ nat_str (length (content_of r)) @ '' characters'' @ nl
     @ (if with_images \<and> images_of r \<noteq> []
        then ''**Images Found:** '' @ nat_str (length (images_of r)) @ '' images'' @ nl
        else [])
     @ ''---'' @ nl"

text \<open>The line of a failed URL: the URL and the reason.\<close>

definition spec_failed_line :: "(string \<times> pyval) list \<Rightarrow> string" where
  "spec_failed_line f =
     ''- '' @ (case map_of f ''url'' of None \<Rightarrow> ''Unknown URL'' | Some v \<Rightarrow> py_str v)
     @ '': '' @ (case map_of f ''error'' of None \<Rightarrow> ''Unknown error'' | Some v \<Rightarrow> py_str v)"

text \<open>Splitting at whitespace, as the specification has it for the word count: every
  whitespace character ends a piece, and the words are the pieces that are not empty.\<close>

fun spec_fields :: "string \<Rightarrow> string list" where
  "spec_fields [] = [[]]"
| "spec_fields (c # cs) =
     (if py_isspace c then [] # spec_fields cs
      else (case spec_fields cs of [] \<Rightarrow> [[c]] | w # ws \<Rightarrow> (c # w) # ws))"

definition spec_words :: "string \<Rightarrow> string list" where
  "spec_words s = filter (\<lambda>w. w \<noteq> []) (spec_fields s)"

section \<open>Properties\<close>

subsection \<open>Auxiliary facts\<close>

lemma then_do_Inl [simp]: "then_do (Inl e) f = Inl e"
  by (simp add: then_do_def)

lemma then_do_Inr [simp]: "then_do (Inr x) f = f x"
  by (simp add: then_do_def)

lemma digit_char_eval:
  "digit_char 0 = CHR ''0''" "digit_char 1 = CHR ''1''" "digit_char 2 = CHR ''2''"
  "digit_char 3 = CHR ''3''" "digit_char 4 = CHR ''4''" "digit_char 5 = CHR ''5''"
  "digit_char 6 = CHR ''6''" "digit_char 7 = CHR ''7''" "digit_char 8 = CHR ''8''"
  "digit_char 9 = CHR ''9''" "digit_char (Suc 0) = CHR ''1''"
  "digit_char (Suc (Suc 0)) = CHR ''2''" "digit_char (Suc (Suc (Suc 0))) = CHR ''3''"
  "digit_char (Suc (Suc (Suc (Suc 0)))) = CHR ''4''"
  "digit_char (Suc (Suc (Suc (Suc (Suc 0))))) = CHR ''5''"
  by code_simp+

lemma py_str_PStr [simp]: "py_str (PStr s) = s"
  by (simp add: py_str_def)

lemma enumerate_Nil_iff [simp]: "List.enumerate i xs = [] \<longleftrightarrow> xs = []"
  by (cases xs) simp_all

lemma str_repr_query: "str_repr ''query'' = squote @ ''query'' @ squote"
  by (simp add: str_repr_def repr_char_def py_printable_def Let_def)

lemma str_repr_urls: "str_repr ''urls'' = squote @ ''urls'' @ squote"
  by (simp add: str_repr_def repr_char_def py_printable_def Let_def)






subsection \<open>The entry point always answers with a text\<close>

lemma call_tool_Inr:
  "snd (route tavily name arguments) = Inr x \<Longrightarrow> snd (call_tool tavily name arguments) = Inr x"
  by (cases "route tavily name arguments") (auto simp: call_tool_def)














subsection \<open>Unknown tool names\<close>

text \<open>
  Claim C2. For a name that is none of the four registered tools, \<^verbatim>\<open>call_tool\<close> makes no
  backend call and returns (it does not raise) the text \<^verbatim>\<open>Error: Unknown tool: \<close>
  followed by the name itself, so the text contains the unknown name literally.
\<close>

theorem call_tool_unknown_name:
  assumes "name \<notin> {''tavily_search'', ''tavily_qna_search'', ''tavily_get_context'',
                    ''tavily_extract_content''}"
  shows "call_tool tavily name arguments
           = ([], Inr [TextContent ''text'' (''Error: Unknown tool: '' @ name)])"
  using assms by (simp add: call_tool_def route_def)

theorem call_tool_unknown_name_witness:
  "''weather'' \<notin> {''tavily_search'', ''tavily_qna_search'', ''tavily_get_context'',
                    ''tavily_extract_content''}
   \<and> call_tool (\<lambda>c. Inl (BackendError ''down'')) ''weather'' [''city'' \<mapsto> PStr ''Oslo'']
       = ([], Inr [TextContent ''text'' ''Error: Unknown tool: weather''])"
proof -
  have h: "''weather'' \<notin> {''tavily_search'', ''tavily_qna_search'', ''tavily_get_context'',
                    ''tavily_extract_content''}"
    by simp
  show ?thesis
    using h call_tool_unknown_name [OF h, of "\<lambda>c. Inl (BackendError ''down'')"
        "[''city'' \<mapsto> PStr ''Oslo'']"]
    by simp
qed

subsection \<open>A required parameter that is missing\<close>

text \<open>
  Claim C5. When the required parameter (\<^verbatim>\<open>query\<close> for the three search tools,
  \<^verbatim>\<open>urls\<close> for extraction) is absent from the arguments, the handler raises the
  \<^verbatim>\<open>KeyError\<close> of that parameter before anything else, \<^verbatim>\<open>call_tool\<close> answers with
  an error text naming the parameter, and the backend is not called. Each tool declares
  one required parameter, first in its schema, and it is the first one the handler reads.
\<close>

theorem call_tool_missing_required:
  "(name \<in> {''tavily_search'', ''tavily_qna_search'', ''tavily_get_context''}
      \<and> arguments ''query'' = None
    \<longrightarrow> route tavily name arguments = ([], Inl (KeyError (PStr ''query'')))
      \<and> call_tool tavily name arguments
          = ([], Inr [TextContent ''text'' (''Error: '' @ squote @ ''query'' @ squote)]))
   \<and> (name = ''tavily_extract_content'' \<and> arguments ''urls'' = None
    \<longrightarrow> route tavily name arguments = ([], Inl (KeyError (PStr ''urls'')))
      \<and> call_tool tavily name arguments
          = ([], Inr [TextContent ''text'' (''Error: '' @ squote @ ''urls'' @ squote)]))"
  by (auto simp: call_tool_def route_def handle_search_def handle_qna_search_def
      handle_get_context_def handle_extract_content_def str_repr_query str_repr_urls)

theorem call_tool_missing_required_witness:
  "call_tool (\<lambda>c. Inr (PStr ''unused'')) ''tavily_search''
       [''max_results'' \<mapsto> PInt 3, ''include_domains'' \<mapsto> PList [PStr ''a.org'']]
     = ([], Inr [TextContent ''text'' (''Error: '' @ squote @ ''query'' @ squote)])
   \<and> call_tool (\<lambda>c. Inr (PStr ''unused'')) ''tavily_extract_content''
       [''include_images'' \<mapsto> PBool True]
     = ([], Inr [TextContent ''text'' (''Error: '' @ squote @ ''urls'' @ squote)])"
  using call_tool_missing_required [of "''tavily_search''"
      "[''max_results'' \<mapsto> PInt 3, ''include_domains'' \<mapsto> PList [PStr ''a.org'']]"
      "\<lambda>c. Inr (PStr ''unused'')"]
    call_tool_missing_required [of "''tavily_extract_content''"
      "[''include_images'' \<mapsto> PBool True]" "\<lambda>c. Inr (PStr ''unused'')"]
  by simp

subsection \<open>Empty domain filters\<close>

text \<open>
  Claim C10. In general search an \<^verbatim>\<open>include_domains\<close> or \<^verbatim>\<open>exclude_domains\<close> that is
  the empty list gives the same backend call and the same answer as leaving the parameter
  out: the empty filter is not passed to the backend.
\<close>

theorem handle_search_empty_domains:
  "handle_search tavily (arguments(''include_domains'' \<mapsto> PList []))
     = handle_search tavily (arguments(''include_domains'' := None))
   \<and> handle_search tavily (arguments(''exclude_domains'' \<mapsto> PList []))
     = handle_search tavily (arguments(''exclude_domains'' := None))
   \<and> call_tool tavily ''tavily_search'' (arguments(''include_domains'' \<mapsto> PList []))
     = call_tool tavily ''tavily_search'' (arguments(''include_domains'' := None))
   \<and> call_tool tavily ''tavily_search'' (arguments(''exclude_domains'' \<mapsto> PList []))
     = call_tool tavily ''tavily_search'' (arguments(''exclude_domains'' := None))"
  by (cases "arguments ''query''")
    (simp_all add: call_tool_def route_def handle_search_def args_get_def Let_def)

subsection \<open>No range check on \<^verbatim>\<open>max_results\<close>\<close>

lemma map_of_key_in: "map_of d k = Some v \<Longrightarrow> k \<in> fst ` set d"
  by (metis map_of_eq_None_iff option.distinct(1))

lemma handle_search_calls:
  "arguments ''query'' = Some q \<Longrightarrow>
   fst (handle_search tavily arguments)
     = [Search q (args_get arguments ''max_results'' (PInt 5))
          (if py_truthy (args_get arguments ''include_domains'' PNone)
           then Some (args_get arguments ''include_domains'' PNone) else None)
          (if py_truthy (args_get arguments ''exclude_domains'' PNone)
           then Some (args_get arguments ''exclude_domains'' PNone) else None)]"
  by (simp add: handle_search_def Let_def)

lemma call_tool_search_fst:
  "fst (call_tool tavily ''tavily_search'' arguments) = fst (handle_search tavily arguments)"
  by (simp add: call_tool_def route_def split: prod.splits sum.splits)




subsection \<open>No limit on the number of URLs\<close>

lemma call_tool_extract_fst:
  "fst (call_tool tavily ''tavily_extract_content'' arguments)
     = fst (handle_extract_content tavily arguments)"
  by (simp add: call_tool_def route_def split: prod.splits sum.splits)

lemma handle_extract_content_calls:
  "arguments ''urls'' = Some (PList us) \<Longrightarrow>
   fst (handle_extract_content tavily arguments)
     = [Extract (PList us) (args_get arguments ''include_images'' (PBool False))]"
  by (simp add: handle_extract_content_def Let_def py_len_def)

text \<open>
  Claim C4 as stated fails: with a list of 21 URLs the extraction call is made, with all
  21, and the answer is the rendering of the backend's response.
\<close>

theorem handle_extract_content_21_urls_counterexample:
  "call_tool (answering (PDict [])) ''tavily_extract_content''
       (map_of [(''urls'', PList (replicate 21 (PStr ''u'')))])
     = ([Extract (PList (replicate 21 (PStr ''u''))) (PBool False)],
        Inr [TextContent ''text''
          (nl @ ''# Tavily Content Extraction Results'' @ nl @ nl
           @ ''## Successfully Extracted (0 URLs):'' @ nl @ nl
           @ ''No content successfully extracted.'' @ nl @ nl
           @ ''## Failed Extractions (0 URLs):'' @ nl @ nl
           @ ''No failed extractions.'' @ nl @ nl
           @ ''**Extraction completed.**'' @ nl)])"
  by (simp add: call_tool_def route_def handle_extract_content_def Let_def args_get_def
      answering_def py_len_def extract_results_def extract_failed_def py_contains_def
      extract_text_def nat_str.simps digit_char_eval)

text \<open>
  Claim C4, amended. \<^verbatim>\<open>handle_extract_content\<close> checks no length: when \<^verbatim>\<open>urls\<close> is
  a list, of any length, the extraction call is made exactly once and receives the whole
  list.
\<close>

theorem handle_extract_content_forwards_urls:
  assumes "arguments ''urls'' = Some (PList us)"
  shows "fst (call_tool tavily ''tavily_extract_content'' arguments)
           = [Extract (PList us) (args_get arguments ''include_images'' (PBool False))]"
  using assms by (simp add: call_tool_extract_fst handle_extract_content_calls)

theorem handle_extract_content_forwards_urls_witness:
  "fst (call_tool (failing ''down'') ''tavily_extract_content''
       (map_of [(''urls'', PList (replicate 21 (PStr ''u'')))]))
     = [Extract (PList (replicate 21 (PStr ''u''))) (PBool False)]"
  using handle_extract_content_forwards_urls [of
      "map_of [(''urls'', PList (replicate 21 (PStr ''u'')))]" "replicate 21 (PStr ''u'')"
      "failing ''down''"]
  by (simp add: args_get_def)

subsection \<open>A search with no results\<close>

lemma search_results_empty_list:
  assumes "map_of d ''results'' = Some (PList [])"
    and "max_results = PInt n \<or> max_results = PNone \<or> max_results = PBool b"
  shows "search_results (PDict d) max_results = Inr []"
proof -
  have "''results'' \<in> fst ` set d"
    using assms(1) by (rule map_of_key_in)
  then have "py_contains ''results'' (PDict d) = Inr True"
    by (simp add: py_contains_def)
  moreover have "py_getitem (PDict d) ''results'' = Inr (PList [])"
    using assms(1) by (simp add: py_getitem_def)
  moreover have "py_slice_to (PList []) max_results = Inr (PList [])"
    using assms(2) by (auto simp: py_slice_to_def slice_stop_def)
  ultimately show ?thesis
    by (simp add: search_results_def py_iter_def)
qed

lemma call_tool_search_snd:
  assumes "arguments ''query'' = Some q"
    and "fst (call_tool tavily ''tavily_search'' arguments) = [c]"
  shows "snd (call_tool tavily ''tavily_search'' arguments)
           = Inr [TextContent ''text''
               (case then_do (tavily c) (\<lambda>response.
                       then_do (search_results response (args_get arguments ''max_results'' (PInt 5)))
                         (\<lambda>results. Inr (search_text q results)))
                of Inr t \<Rightarrow> t
                 | Inl e \<Rightarrow> ''Search failed: '' @ str_exc e)]"
  using assms by (simp add: call_tool_def route_def handle_search_def Let_def)

text \<open>
  Claim C6. When the search call succeeds with a response whose \<^verbatim>\<open>results\<close> is the empty
  list (and \<^verbatim>\<open>max_results\<close> is left out or is an integer), the text is the sentence
  \<^verbatim>\<open>No search results found.\<close>; the sentence is not empty and differs from every failure
  text, which starts with \<^verbatim>\<open>Search failed: \<close> or \<^verbatim>\<open>Error: \<close>.
\<close>

theorem handle_search_no_results:
  assumes "arguments ''query'' = Some q"
    and "arguments ''max_results'' = None \<or> (\<exists>n. arguments ''max_results'' = Some (PInt n))"
    and "fst (call_tool tavily ''tavily_search'' arguments) = [c]"
    and "tavily c = Inr (PDict d)"
    and "map_of d ''results'' = Some (PList [])"
  shows "snd (call_tool tavily ''tavily_search'' arguments)
           = Inr [TextContent ''text'' ''No search results found.'']
         \<and> ''No search results found.'' \<noteq> []
         \<and> (\<forall>e. ''No search results found.'' \<noteq> ''Search failed: '' @ str_exc e
                \<and> ''No search results found.'' \<noteq> ''Error: '' @ str_exc e)"
proof -
  from assms(2) obtain n where "args_get arguments ''max_results'' (PInt 5) = PInt n"
    by (auto simp: args_get_def)
  then have "search_results (PDict d) (args_get arguments ''max_results'' (PInt 5)) = Inr []"
    using search_results_empty_list [OF assms(5), of _ n] by simp
  then have "snd (call_tool tavily ''tavily_search'' arguments)
      = Inr [TextContent ''text'' ''No search results found.'']"
    using call_tool_search_snd [OF assms(1) assms(3)] assms(4)
    by (simp add: search_text_def)
  then show ?thesis by simp
qed

theorem handle_search_no_results_witness:
  "snd (call_tool (answering (PDict [(''query'', PStr ''x''), (''results'', PList [])]))
         ''tavily_search'' (map_of [(''query'', PStr ''x'')]))
     = Inr [TextContent ''text'' ''No search results found.'']"
proof -
  let ?t = "answering (PDict [(''query'', PStr ''x''), (''results'', PList [])])"
  let ?a = "map_of [(''query'', PStr ''x'')]"
  have 1: "?a ''query'' = Some (PStr ''x'')" by simp
  have 2: "?a ''max_results'' = None \<or> (\<exists>n. ?a ''max_results'' = Some (PInt n))" by simp
  have 3: "fst (call_tool ?t ''tavily_search'' ?a) = [Search (PStr ''x'') (PInt 5) None None]"
    by (simp add: call_tool_def route_def handle_search_def Let_def args_get_def)
  have 4: "?t (Search (PStr ''x'') (PInt 5) None None)
             = Inr (PDict [(''query'', PStr ''x''), (''results'', PList [])])"
    by (simp add: answering_def)
  have 5: "map_of [(''query'', PStr ''x''), (''results'', PList [])] ''results'' = Some (PList [])"
    by simp
  from handle_search_no_results [OF 1 2 3 4 5] show ?thesis by blast
qed

subsection \<open>Context retrieval\<close>

lemma spec_fields_not_Nil: "spec_fields s \<noteq> []"
  by (induction s) (simp_all split: list.splits)

lemma split_from_spec_fields:
  "split_from cur s
     = filter (\<lambda>w. w \<noteq> []) ((rev cur @ hd (spec_fields s)) # tl (spec_fields s))"
proof (induction s arbitrary: cur)
  case Nil
  show ?case by simp
next
  case (Cons c cs)
  obtain w ws where f: "spec_fields cs = w # ws"
    using spec_fields_not_Nil [of cs] by (cases "spec_fields cs") auto
  show ?case
  proof (cases "py_isspace c")
    case True
    then show ?thesis
      using Cons.IH [of "[]"] f by simp
  next
    case False
    then show ?thesis
      using Cons.IH [of "c # cur"] f by simp
  qed
qed

text \<open>The words \<^verbatim>\<open>split()\<close> returns are the words of the specification.\<close>

lemma split_from_words: "split_from [] s = spec_words s"
  using split_from_spec_fields [of "[]" s] spec_fields_not_Nil [of s]
  by (cases "spec_fields s") (simp_all add: spec_words_def)

text \<open>
  Claim C7. When the context call succeeds with a string, the text holds that string, the
  requested \<^verbatim>\<open>max_tokens\<close> (4000 when left out) and the number of words of that very
  string, counted by splitting it at whitespace (the words \<^verbatim>\<open>split()\<close> finds are the
  non-empty pieces between whitespace characters); nothing else of the backend's answer
  enters the count.
\<close>

theorem handle_get_context_text:
  assumes "arguments ''query'' = Some q"
    and "fst (call_tool tavily ''tavily_get_context'' arguments) = [c]"
    and "tavily c = Inr (PStr context)"
  shows "snd (call_tool tavily ''tavily_get_context'' arguments)
           = Inr [TextContent ''text''
               (nl @ ''# Tavily Context for: '' @ dquote @ py_str q @ dquote @ nl
                @ nl
                @ ''## Generated Context:'' @ nl
                @ nl
                @ context @ nl
                @ nl
                @ ''---'' @ nl
                @ ''**Context Length:** ~'' @ nat_str (length (split_from [] context))
                @ '' words'' @ nl
                @ ''**Max Tokens Requested:** ''
                @ py_str (args_get arguments ''max_tokens'' (PInt 4000)) @ nl
                @ nl
                @ ''**Note:** This context is compiled from multiple web sources and formatted for RAG applications.''
                @ nl)]
         \<and> split_from [] context = spec_words context"
  using assms
  by (simp add: call_tool_def route_def handle_get_context_def Let_def context_text_def
      py_split_def py_str_def split_from_words)

theorem handle_get_context_text_witness:
  "snd (call_tool (answering (PStr '' one  two three four five six seven eight nine ten ''))
         ''tavily_get_context'' (map_of [(''query'', PStr ''x''), (''max_tokens'', PInt 500)]))
     = Inr [TextContent ''text''
         (nl @ ''# Tavily Context for: '' @ dquote @ ''x'' @ dquote @ nl
          @ nl
          @ ''## Generated Context:'' @ nl
          @ nl
          @ '' one  two three four five six seven eight nine ten '' @ nl
          @ nl
          @ ''---'' @ nl
          @ ''**Context Length:** ~10 words'' @ nl
          @ ''**Max Tokens Requested:** 500'' @ nl
          @ nl
          @ ''**Note:** This context is compiled from multiple web sources and formatted for RAG applications.''
          @ nl)]"
proof -
  let ?ctx = "'' one  two three four five six seven eight nine ten ''"
  let ?t = "answering (PStr ?ctx)"
  let ?a = "map_of [(''query'', PStr ''x''), (''max_tokens'', PInt 500)]"
  have 1: "?a ''query'' = Some (PStr ''x'')" by simp
  have 2: "fst (call_tool ?t ''tavily_get_context'' ?a) = [GetSearchContext (PStr ''x'') (PInt 500)]"
    by (simp add: call_tool_def route_def handle_get_context_def Let_def args_get_def)
  have 3: "?t (GetSearchContext (PStr ''x'') (PInt 500)) = Inr (PStr ?ctx)"
    by (simp add: answering_def)
  have words: "length (split_from [] ?ctx) = 10"
    by (simp add: py_isspace_def)
  have ten: "nat_str 10 = ''10''"
    by (simp add: nat_str.simps digit_char_eval)
  have tokens: "py_str (args_get ?a ''max_tokens'' (PInt 4000)) = ''500''"
    by (simp add: args_get_def py_str_def int_str_def nat_str.simps digit_char_eval)
  have query: "py_str (PStr ''x'') = ''x''"
    by (simp add: py_str_def)
  show ?thesis
    unfolding handle_get_context_text [OF 1 2 3, THEN conjunct1] words ten tokens query by simp
qed

subsection \<open>The rendering of search results\<close>

lemma search_block_dict: "search_block i (PDict r) = Inr (spec_result_block i r)"
  by (simp add: search_block_def py_get_def spec_result_block_def spec_field_def
      split: option.splits)

lemma search_blocks_dicts:
  "search_blocks i (map PDict rs)
     = Inr (map (\<lambda>(j, r). spec_result_block j r) (List.enumerate i rs))"
  by (induction rs arbitrary: i) (simp_all add: search_block_dict)

lemma search_results_dicts:
  assumes "map_of d ''results'' = Some (PList (map PDict rs))"
  shows "search_results (PDict d) (PInt (int n))
           = Inr (map (\<lambda>(j, r). spec_result_block j r) (List.enumerate 1 (take n rs)))"
proof -
  have "''results'' \<in> fst ` set d"
    using assms by (rule map_of_key_in)
  then have "py_contains ''results'' (PDict d) = Inr True"
    by (simp add: py_contains_def)
  moreover have "py_getitem (PDict d) ''results'' = Inr (PList (map PDict rs))"
    using assms by (simp add: py_getitem_def)
  moreover have "py_slice_to (PList (map PDict rs)) (PInt (int n))
      = Inr (PList (map PDict (take n rs)))"
    by (simp add: py_slice_to_def slice_stop_def take_map)
  ultimately show ?thesis
    using search_blocks_dicts [of 1 "take n rs"]
    by (simp add: search_results_def py_iter_def)
qed

text \<open>
  Claim C8 as stated fails in two places. The count summary does not close the listing: it
  stands before the first block, and what follows the last block is a fixed line with no
  count in it. And the number of blocks is not bounded by \<^verbatim>\<open>max_results\<close> for every
  search that succeeds: a negative \<^verbatim>\<open>max_results\<close> reaches the formatter unchecked, and
  \<open>-1\<close> with three records renders two blocks.
\<close>

theorem handle_search_layout_counterexample:
  "snd (call_tool (answering (PDict [(''results'', PList [PDict [], PDict [], PDict []])]))
         ''tavily_search'' (map_of [(''query'', PStr ''x''), (''max_results'', PInt (- 1))]))
     = Inr [TextContent ''text''
         (nl @ ''# Tavily Search Results for: '' @ dquote @ ''x'' @ dquote @ nl
          @ nl
          @ ''Found 2 results:'' @ nl
          @ nl
          @ (nl @ ''**Result 1:**'' @ nl
             @ ''**Title:** N/A'' @ nl
             @ ''**URL:** N/A'' @ nl
             @ ''**Content:** N/A'' @ nl
             @ ''**Score:** N/A'' @ nl
             @ ''---'' @ nl)
          @ (nl @ ''**Result 2:**'' @ nl
             @ ''**Title:** N/A'' @ nl
             @ ''**URL:** N/A'' @ nl
             @ ''**Content:** N/A'' @ nl
             @ ''**Score:** N/A'' @ nl
             @ ''---'' @ nl)
          @ nl
          @ nl
          @ ''**Search completed successfully.**'' @ nl)]
   \<and> set (nl @ nl @ ''**Search completed successfully.**'' @ nl) \<inter> set ''0123456789'' = {}"
  by (simp add: call_tool_def route_def handle_search_def Let_def args_get_def answering_def
      search_results_def py_contains_def py_getitem_def py_slice_to_def slice_stop_def
      py_iter_def search_block_def py_get_def search_text_def py_str_def
      nat_str.simps digit_char_eval)

text \<open>
  Claim C8, amended. For a search that succeeds with a list of records, and
  \<^verbatim>\<open>max_results\<close> a non-negative integer \<open>n\<close> (5 when left out), the formatter renders
  the first \<open>n\<close> records and no more, whatever the backend returned, as blocks numbered
  from 1; a title, URL, content or score that is absent shows as \<^verbatim>\<open>N/A\<close>; and when there
  is a block, the count summary \<^verbatim>\<open>Found k results:\<close> stands before the listing and the
  fixed line \<^verbatim>\<open>**Search completed successfully.**\<close> after it.
\<close>

theorem handle_search_rendering:
  assumes "arguments ''query'' = Some q"
    and "args_get arguments ''max_results'' (PInt 5) = PInt (int n)"
    and "fst (call_tool tavily ''tavily_search'' arguments) = [c]"
    and "tavily c = Inr (PDict d)"
    and "map_of d ''results'' = Some (PList (map PDict rs))"
  shows "snd (call_tool tavily ''tavily_search'' arguments)
           = Inr [TextContent ''text''
               (if take n rs = [] then ''No search results found.''
                else nl @ ''# Tavily Search Results for: '' @ dquote @ py_str q @ dquote @ nl
                     @ nl
                     @ ''Found '' @ nat_str (min n (length rs)) @ '' results:'' @ nl
                     @ nl
                     @ concat (map (\<lambda>(i, r). spec_result_block i r)
                                (List.enumerate 1 (take n rs))) @ nl
                     @ nl
                     @ ''**Search completed successfully.**'' @ nl)]
         \<and> length (List.enumerate 1 (take n rs)) \<le> n"
proof -
  have "search_results (PDict d) (args_get arguments ''max_results'' (PInt 5))
      = Inr (map (\<lambda>(j, r). spec_result_block j r) (List.enumerate 1 (take n rs)))"
    using search_results_dicts [OF assms(5), of n] assms(2) by simp
  then have "snd (call_tool tavily ''tavily_search'' arguments)
      = Inr [TextContent ''text''
          (search_text q (map (\<lambda>(j, r). spec_result_block j r) (List.enumerate 1 (take n rs))))]"
    using call_tool_search_snd [OF assms(1) assms(3)] assms(4) by simp
  then show ?thesis
    by (simp add: search_text_def min.commute)
qed

theorem handle_search_rendering_witness:
  "snd (call_tool
          (answering (PDict [(''results'', PList
             [PDict [(''title'', PStr ''A''), (''url'', PStr ''http://a''),
                     (''content'', PStr ''alpha''), (''score'', PFloat ''0.9'')],
              PDict [(''title'', PStr ''B'')],
              PDict [(''title'', PStr ''C'')]])]))
          ''tavily_search'' (map_of [(''query'', PStr ''x''), (''max_results'', PInt 2)]))
     = Inr [TextContent ''text''
         (nl @ ''# Tavily Search Results for: '' @ dquote @ ''x'' @ dquote @ nl
          @ nl
          @ ''Found 2 results:'' @ nl
          @ nl
          @ (nl @ ''**Result 1:**'' @ nl
             @ ''**Title:** A'' @ nl
             @ ''**URL:** http://a'' @ nl
             @ ''**Content:** alpha'' @ nl
             @ ''**Score:** 0.9'' @ nl
             @ ''---'' @ nl)
          @ (nl @ ''**Result 2:**'' @ nl
             @ ''**Title:** B'' @ nl
             @ ''**URL:** N/A'' @ nl
             @ ''**Content:** N/A'' @ nl
             @ ''**Score:** N/A'' @ nl
             @ ''---'' @ nl)
          @ nl
          @ nl
          @ ''**Search completed successfully.**'' @ nl)]"
proof -
  let ?r1 = "[(''title'', PStr ''A''), (''url'', PStr ''http://a''),
              (''content'', PStr ''alpha''), (''score'', PFloat ''0.9'')]"
  let ?rs = "[?r1, [(''title'', PStr ''B'')], [(''title'', PStr ''C'')]]"
  let ?d = "[(''results'', PList (map PDict ?rs))]"
  let ?t = "answering (PDict ?d)"
  let ?a = "map_of [(''query'', PStr ''x''), (''max_results'', PInt 2)]"
  have 1: "?a ''query'' = Some (PStr ''x'')" by simp
  have 2: "args_get ?a ''max_results'' (PInt 5) = PInt (int 2)"
    by (simp add: args_get_def)
  have 3: "fst (call_tool ?t ''tavily_search'' ?a) = [Search (PStr ''x'') (PInt 2) None None]"
    by (simp add: call_tool_def route_def handle_search_def Let_def args_get_def)
  have 4: "?t (Search (PStr ''x'') (PInt 2) None None) = Inr (PDict ?d)"
    by (simp add: answering_def)
  have 5: "map_of ?d ''results'' = Some (PList (map PDict ?rs))" by simp
  have blocks: "take 2 ?rs = [?r1, [(''title'', PStr ''B'')]]" by simp
  from handle_search_rendering [OF 1 2 3 4 5] show ?thesis
    unfolding blocks
    by (simp add: spec_result_block_def spec_field_def py_str_def nat_str.simps
        digit_char_eval)
qed

subsection \<open>The rendering of extracted content\<close>

lemma extract_block_dict:
  assumes "wf_extracted r"
  shows "extract_block include_images i (PDict r)
           = Inr (spec_extract_block (py_truthy include_images) i r)"
proof -
  have get: "py_get (PDict r) ''raw_content'' (PStr []) = Inr (PStr (content_of r))"
    using assms
    by (auto simp: py_get_def content_of_def wf_extracted_def split: option.splits pyval.splits)
  have slice: "py_slice_to (PStr (content_of r)) (PInt 500) = Inr (PStr (take 500 (content_of r)))"
    by (simp add: py_slice_to_def slice_stop_def)
  have len: "py_len (PStr (content_of r)) = Inr (length (content_of r))"
    by (simp add: py_len_def)
  have url: "py_get (PDict r) ''url'' (PStr ''N/A'') = Inr (PStr (spec_field r ''url''))
      \<or> (\<exists>v. py_get (PDict r) ''url'' (PStr ''N/A'') = Inr v \<and> py_str v = spec_field r ''url'')"
    by (simp add: py_get_def spec_field_def split: option.splits)
  then obtain u where u: "py_get (PDict r) ''url'' (PStr ''N/A'') = Inr u"
    and us: "py_str u = spec_field r ''url''"
    by auto
  have img: "images_line include_images (PDict r)
      = Inr (if py_truthy include_images \<and> images_of r \<noteq> []
             then ''**Images Found:** '' @ nat_str (length (images_of r)) @ '' images'' @ nl
             else [])"
    using assms
    by (auto simp: images_line_def py_get_def py_getitem_def py_len_def images_of_def
        wf_extracted_def split: option.splits pyval.splits)
  show ?thesis
    by (simp add: extract_block_def get slice len u us img py_iadd_dots_def
        spec_extract_block_def)
qed

lemma extract_blocks_dicts:
  assumes "list_all wf_extracted rs"
  shows "extract_blocks include_images i (map PDict rs)
           = Inr (map (\<lambda>(j, r). spec_extract_block (py_truthy include_images) j r)
                    (List.enumerate i rs))"
  using assms by (induction rs arbitrary: i) (simp_all add: extract_block_dict)

lemma failed_line_dict: "failed_line (PDict f) = Inr (spec_failed_line f)"
  by (simp add: failed_line_def py_get_def spec_failed_line_def split: option.splits)

lemma failed_lines_dicts: "failed_lines (map PDict fs) = Inr (map spec_failed_line fs)"
  by (induction fs) (simp_all add: failed_line_dict)

lemma extract_results_dicts:
  assumes "map_of d ''results'' = Some (PList (map PDict rs))"
    and "list_all wf_extracted rs"
  shows "extract_results include_images (PDict d)
           = Inr (map (\<lambda>(j, r). spec_extract_block (py_truthy include_images) j r)
                    (List.enumerate 1 rs))"
proof -
  have "''results'' \<in> fst ` set d"
    using assms(1) by (rule map_of_key_in)
  then have "py_contains ''results'' (PDict d) = Inr True"
    by (simp add: py_contains_def)
  moreover have "py_getitem (PDict d) ''results'' = Inr (PList (map PDict rs))"
    using assms(1) by (simp add: py_getitem_def)
  ultimately show ?thesis
    using extract_blocks_dicts [OF assms(2), of include_images 1]
    by (simp add: extract_results_def py_iter_def)
qed

lemma extract_failed_dicts:
  assumes "map_of d ''failed_results'' = Some (PList (map PDict fs))"
  shows "extract_failed (PDict d) = Inr (map spec_failed_line fs)"
proof -
  have "''failed_results'' \<in> fst ` set d"
    using assms by (rule map_of_key_in)
  then have "py_contains ''failed_results'' (PDict d) = Inr True"
    by (simp add: py_contains_def)
  moreover have "py_getitem (PDict d) ''failed_results'' = Inr (PList (map PDict fs))"
    using assms by (simp add: py_getitem_def)
  ultimately show ?thesis
    using failed_lines_dicts [of fs]
    by (cases fs) (simp_all add: extract_failed_def py_iter_def)
qed

text \<open>
  Claim C9. For an extraction that succeeds with a list of extracted records and a list of
  failed ones, the text has two sections. The first gives the number of extracted records
  (also when it is zero) and a block for each: its URL, the first 500 characters of its
  content, followed by \<^verbatim>\<open>...\<close> exactly when the content is longer than 500, the length
  of the whole content, and the number of images only when \<^verbatim>\<open>include_images\<close> is set and
  the record has images. The second gives the number of failed records (also when it is
  zero) and a line for each with its URL and the reason.
\<close>

theorem handle_extract_content_rendering:
  assumes "arguments ''urls'' = Some (PList us)"
    and "fst (call_tool tavily ''tavily_extract_content'' arguments) = [c]"
    and "tavily c = Inr (PDict d)"
    and "map_of d ''results'' = Some (PList (map PDict rs))"
    and "list_all wf_extracted rs"
    and "map_of d ''failed_results'' = Some (PList (map PDict fs))"
  shows "snd (call_tool tavily ''tavily_extract_content'' arguments)
           = Inr [TextContent ''text''
               (nl @ ''# Tavily Content Extraction Results'' @ nl
                @ nl
                @ ''## Successfully Extracted ('' @ nat_str (length rs) @ '' URLs):'' @ nl
                @ nl
                @ (if rs = [] then ''No content successfully extracted.''
                   else concat (map (\<lambda>(i, r). spec_extract_block
                           (py_truthy (args_get arguments ''include_images'' (PBool False))) i r)
                         (List.enumerate 1 rs))) @ nl
                @ nl
                @ ''## Failed Extractions ('' @ nat_str (length fs) @ '' URLs):'' @ nl
                @ nl
                @ (if fs = [] then ''No failed extractions.''
                   else join_str nl (map spec_failed_line fs)) @ nl
                @ nl
                @ ''**Extraction completed.**'' @ nl)]"
proof -
  let ?inc = "args_get arguments ''include_images'' (PBool False)"
  have c: "c = Extract (PList us) ?inc"
    using assms(1,2) by (simp add: call_tool_extract_fst handle_extract_content_calls)
  have "snd (handle_extract_content tavily arguments) = Inr [TextContent ''text''
      (extract_text (map (\<lambda>(j, r). spec_extract_block (py_truthy ?inc) j r) (List.enumerate 1 rs))
         (map spec_failed_line fs))]"
    using assms(1) assms(3) [unfolded c]
      extract_results_dicts [OF assms(4,5), of ?inc] extract_failed_dicts [OF assms(6)]
    by (simp add: handle_extract_content_def Let_def py_len_def)
  then have "snd (call_tool tavily ''tavily_extract_content'' arguments)
      = Inr [TextContent ''text''
          (extract_text (map (\<lambda>(j, r). spec_extract_block (py_truthy ?inc) j r) (List.enumerate 1 rs))
             (map spec_failed_line fs))]"
    using call_tool_Inr [of tavily "''tavily_extract_content''" arguments]
    by (simp add: route_def)
  then show ?thesis
    by (simp add: extract_text_def)
qed

theorem handle_extract_content_rendering_witness:
  "snd (call_tool
          (answering (PDict
             [(''results'', PList
                [PDict [(''url'', PStr ''u1''), (''raw_content'', PStr (replicate 501 CHR ''a'')),
                        (''images'', PList [PStr ''i1'', PStr ''i2''])],
                 PDict [(''url'', PStr ''u2''), (''raw_content'', PStr ''short'')]]),
              (''failed_results'', PList
                [PDict [(''url'', PStr ''u3''), (''error'', PStr ''timeout'')]])]))
          ''tavily_extract_content''
          (map_of [(''urls'', PList [PStr ''u1'', PStr ''u2'', PStr ''u3'']),
                   (''include_images'', PBool True)]))
     = Inr [TextContent ''text''
         (nl @ ''# Tavily Content Extraction Results'' @ nl
          @ nl
          @ ''## Successfully Extracted (2 URLs):'' @ nl
          @ nl
          @ (nl @ ''**Extract 1:**'' @ nl
             @ ''**URL:** u1'' @ nl
             @ ''**Content Preview:** '' @ replicate 500 CHR ''a'' @ ''...'' @ nl
             @ ''**Full Content Length:** 501 characters'' @ nl
             @ ''**Images Found:** 2 images'' @ nl
             @ ''---'' @ nl)
          @ (nl @ ''**Extract 2:**'' @ nl
             @ ''**URL:** u2'' @ nl
             @ ''**Content Preview:** short'' @ nl
             @ ''**Full Content Length:** 5 characters'' @ nl
             @ ''---'' @ nl)
          @ nl
          @ nl
          @ ''## Failed Extractions (1 URLs):'' @ nl
          @ nl
          @ ''- u3: timeout'' @ nl
          @ nl
          @ ''**Extraction completed.**'' @ nl)]
   \<and> snd (call_tool
          (answering (PDict [(''results'', PList []), (''failed_results'', PList [])]))
          ''tavily_extract_content'' (map_of [(''urls'', PList [PStr ''u1''])]))
     = Inr [TextContent ''text''
         (nl @ ''# Tavily Content Extraction Results'' @ nl
          @ nl
          @ ''## Successfully Extracted (0 URLs):'' @ nl
          @ nl
          @ ''No content successfully extracted.'' @ nl
          @ nl
          @ ''## Failed Extractions (0 URLs):'' @ nl
          @ nl
          @ ''No failed extractions.'' @ nl
          @ nl
          @ ''**Extraction completed.**'' @ nl)]"
proof -
  let ?r1 = "[(''url'', PStr ''u1''), (''raw_content'', PStr (replicate 501 CHR ''a'')),
              (''images'', PList [PStr ''i1'', PStr ''i2''])]"
  let ?r2 = "[(''url'', PStr ''u2''), (''raw_content'', PStr ''short'')]"
  let ?f = "[(''url'', PStr ''u3''), (''error'', PStr ''timeout'')]"
  let ?d = "[(''results'', PList (map PDict [?r1, ?r2])),
             (''failed_results'', PList (map PDict [?f]))]"
  let ?us = "[PStr ''u1'', PStr ''u2'', PStr ''u3'']"
  let ?a = "map_of [(''urls'', PList ?us), (''include_images'', PBool True)]"
  let ?empty = "[(''results'', PList (map PDict [])), (''failed_results'', PList (map PDict []))]"
  let ?single = "map_of [(''urls'', PList [PStr ''u1''])]"
  have 1: "?a ''urls'' = Some (PList ?us)" by simp
  have 2: "fst (call_tool (answering (PDict ?d)) ''tavily_extract_content'' ?a)
             = [Extract (PList ?us) (PBool True)]"
    by (simp add: call_tool_extract_fst handle_extract_content_calls args_get_def)
  have 3: "answering (PDict ?d) (Extract (PList ?us) (PBool True)) = Inr (PDict ?d)"
    by (simp add: answering_def)
  have 4: "map_of ?d ''results'' = Some (PList (map PDict [?r1, ?r2]))" by simp
  have 5: "list_all wf_extracted [?r1, ?r2]" by (simp add: wf_extracted_def)
  have 6: "map_of ?d ''failed_results'' = Some (PList (map PDict [?f]))" by simp
  have c1: "content_of ?r1 = replicate 501 CHR ''a''" by (simp add: content_of_def)
  have c2: "content_of ?r2 = ''short''" by (simp add: content_of_def)
  have i1: "images_of ?r1 = [PStr ''i1'', PStr ''i2'']" by (simp add: images_of_def)
  have i2: "images_of ?r2 = []" by (simp add: images_of_def)
  have n501: "nat_str 501 = ''501''" by (simp add: nat_str.simps digit_char_eval)
  have first: "snd (call_tool (answering (PDict ?d)) ''tavily_extract_content'' ?a)
      = Inr [TextContent ''text''
         (nl @ ''# Tavily Content Extraction Results'' @ nl
          @ nl
          @ ''## Successfully Extracted (2 URLs):'' @ nl
          @ nl
          @ (nl @ ''**Extract 1:**'' @ nl
             @ ''**URL:** u1'' @ nl
             @ ''**Content Preview:** '' @ replicate 500 CHR ''a'' @ ''...'' @ nl
             @ ''**Full Content Length:** 501 characters'' @ nl
             @ ''**Images Found:** 2 images'' @ nl
             @ ''---'' @ nl)
          @ (nl @ ''**Extract 2:**'' @ nl
             @ ''**URL:** u2'' @ nl
             @ ''**Content Preview:** short'' @ nl
             @ ''**Full Content Length:** 5 characters'' @ nl
             @ ''---'' @ nl)
          @ nl
          @ nl
          @ ''## Failed Extractions (1 URLs):'' @ nl
          @ nl
          @ ''- u3: timeout'' @ nl
          @ nl
          @ ''**Extraction completed.**'' @ nl)]"
    unfolding handle_extract_content_rendering [OF 1 2 3 4 5 6]
    by (simp add: spec_extract_block_def spec_failed_line_def spec_field_def c1 c2 i1 i2 n501
        args_get_def nat_str.simps digit_char_eval)
  have 01: "?single ''urls'' = Some (PList [PStr ''u1''])" by simp
  have 02: "fst (call_tool (answering (PDict ?empty)) ''tavily_extract_content'' ?single)
             = [Extract (PList [PStr ''u1'']) (PBool False)]"
    by (simp add: call_tool_extract_fst handle_extract_content_calls args_get_def)
  have 03: "answering (PDict ?empty) (Extract (PList [PStr ''u1'']) (PBool False)) = Inr (PDict ?empty)"
    by (simp add: answering_def)
  have 04: "map_of ?empty ''results'' = Some (PList (map PDict []))" by simp
  have 05: "list_all wf_extracted []" by simp
  have 06: "map_of ?empty ''failed_results'' = Some (PList (map PDict []))" by simp
  have second: "snd (call_tool (answering (PDict ?empty)) ''tavily_extract_content'' ?single)
      = Inr [TextContent ''text''
         (nl @ ''# Tavily Content Extraction Results'' @ nl
          @ nl
          @ ''## Successfully Extracted (0 URLs):'' @ nl
          @ nl
          @ ''No content successfully extracted.'' @ nl
          @ nl
          @ ''## Failed Extractions (0 URLs):'' @ nl
          @ nl
          @ ''No failed extractions.'' @ nl
          @ nl
          @ ''**Extraction completed.**'' @ nl)]"
    unfolding handle_extract_content_rendering [OF 01 02 03 04 05 06]
    by (simp add: nat_str.simps digit_char_eval)
  from first second show ?thesis by simp
qed

end
